theory Spec2Isabelle
  imports Complex_Main
begin

section \<open>Values, characters and strings\<close>

text \<open>
  A Python \<open>str\<close> is a sequence of code points. It is modelled as an Isabelle
  \<open>string\<close> whose characters are read as the code points 0 to 255; code points above 255
  are outside the model. The character classes below are those of Python 3 on that range:
  \<open>str.isspace\<close>, \<open>str.isalpha\<close>, \<open>str.lower\<close>, \<open>str.upper\<close> and the
  class \<open>\w\<close> of the module \<open>re\<close> on \<open>str\<close> patterns (alphanumeric or underscore).
\<close>

datatype py_error = KeyError | AttributeError | FileNotFoundError | JSONDecodeError

text \<open>A value read from JSON where the code expects an optional string.\<close>

datatype pyval = PyNone | PyStr string | PyInt int

definition in_range :: "nat \<Rightarrow> nat \<Rightarrow> nat \<Rightarrow> bool" where
  "in_range lo hi n = (lo \<le> n \<and> n \<le> hi)"

definition is_space :: "char \<Rightarrow> bool" where
  "is_space c = (let n = (of_char c :: nat) in
     in_range 9 13 n \<or> in_range 28 32 n \<or> n = 133 \<or> n = 160)"

definition is_upper_char :: "char \<Rightarrow> bool" where
  "is_upper_char c = (let n = (of_char c :: nat) in
     in_range 65 90 n \<or> in_range 192 214 n \<or> in_range 216 222 n)"

definition is_lower_cased :: "char \<Rightarrow> bool" where
  \<comment> \<open>lower-case letters whose upper-case form is again a single code point below 256\<close>
  "is_lower_cased c = (let n = (of_char c :: nat) in
     in_range 97 122 n \<or> in_range 224 246 n \<or> in_range 248 254 n)"

definition is_alpha_char :: "char \<Rightarrow> bool" where
  "is_alpha_char c = (let n = (of_char c :: nat) in
     in_range 65 90 n \<or> in_range 97 122 n \<or> n = 170 \<or> n = 181 \<or> n = 186 \<or>
     in_range 192 214 n \<or> in_range 216 246 n \<or> in_range 248 255 n)"

definition is_word_char :: "char \<Rightarrow> bool" where
  "is_word_char c = (let n = (of_char c :: nat) in
     is_alpha_char c \<or> in_range 48 57 n \<or> n = 95 \<or>
     n = 178 \<or> n = 179 \<or> n = 185 \<or> in_range 188 190 n)"

definition lower_char :: "char \<Rightarrow> char" where
  "lower_char c = (if is_upper_char c then char_of ((of_char c :: nat) + 32) else c)"

definition upper_char :: "char \<Rightarrow> char" where
  \<comment> \<open>\<open>str.upper\<close> leaves the range at U+00B5 and U+00FF and yields two letters at U+00DF;
      these three are left unchanged here, and no statement below depends on them\<close>
  "upper_char c = (if is_lower_cased c then char_of ((of_char c :: nat) - 32) else c)"

definition lower :: "string \<Rightarrow> string" where
  "lower s = map lower_char s"

definition upper :: "string \<Rightarrow> string" where
  "upper s = map upper_char s"

definition strip :: "string \<Rightarrow> string" where
  "strip s = rev (dropWhile is_space (rev (dropWhile is_space s)))"

definition isalpha :: "string \<Rightarrow> bool" where
  "isalpha s = (s \<noteq> [] \<and> list_all is_alpha_char s)"

section \<open>Constants (src/config/constants.py)\<close>

definition CONTINENT_GROUPS :: "(string \<times> string) list" where
  "CONTINENT_GROUPS =
     [(''NA'', ''NA''), (''EU'', ''EU''), (''AS'', ''AS''),
      (''SA'', ''Others''), (''OC'', ''Others''), (''AF'', ''Others'')]"

definition COUNTRY_CODE_FIXES :: "(string \<times> string) list" where
  "COUNTRY_CODE_FIXES =
     [(''UK'', ''GB''), (''U.K.'', ''GB''), (''U.S.'', ''US''), (''USA'', ''US''),
      (''UAE'', ''AE''), (''Korea'', ''KR''), (''South Korea'', ''KR''),
      (''North Korea'', ''KP''), (''Russia'', ''RU''), (''Viet Nam'', ''VN''),
      (''Vietnam'', ''VN'')]"

text \<open>
  The company catalog, each name as its list of code points. One entry of the source
  holds the code points U+221A and U+2265, which is why the entries are not \<open>string\<close>s.
\<close>

definition cps :: "string \<Rightarrow> nat list" where
  "cps s = map of_char s"

definition BIG_TECH_COMPANIES :: "nat list list" where
  "BIG_TECH_COMPANIES =
     map cps
      [''ibm'', ''ibm research'', ''ibm linux technology center'',
       ''microsoft'', ''microsoft azure'', ''azure'', ''microsoft research'',
       ''google'', ''google cloud'', ''alphabet'',
       ''amazon'', ''amazon web services'', ''aws'',
       ''facebook'', ''meta'', ''meta platforms'',
       ''apple'', ''intel'', ''oracle'', ''oracle labs'',
       ''cisco'', ''cisco systems'', ''hp'', ''hewlett packard'', ''hp labs'',
       ''hpe'', ''hewlett packard enterprise'', ''nvidia'', ''vmware'', ''netflix'',
       ''uber'', ''twitter'', ''yahoo'', ''snap'', ''salesforce'',
       ''amd'', ''advanced micro devices'', ''qualcomm'', ''broadcom'',
       ''huawei'', ''alibaba'', ''alibaba cloud'', ''bytedance'', ''tencent'',
       ''baidu'', ''samsung'', ''xiaomi'', ''tiktok'',
       ''arm'', ''arm ltd'', ''arm limited'', ''arm holdings'',
       ''ericsson'', ''nokia'', ''siemens'', ''orange'', ''atos'',
       ''deutsche telekom'', ''bosch'', ''airbus'', ''sap'',
       ''telefonica'', ''vodafone'', ''thales'', ''philips'']
     @ [cps ''telef'' @ [8730, 8805] @ cps ''nica'']"

section \<open>Country and continent resolution (src/utils/continent_mapper.py)\<close>

text \<open>
  The two functions of the library \<open>pycountry_convert\<close> that the mapper calls are
  parameters: \<open>names\<close> stands for \<open>country_name_to_country_alpha2\<close> and \<open>conts\<close> for
  \<open>country_alpha2_to_continent_code\<close>. Each returns a string or raises, which is
  \<open>Inl\<close>.
\<close>

type_synonym pc_lookup = "string \<Rightarrow> py_error + string"

definition normalize_alpha2 :: "pyval \<Rightarrow> string option" where
  "normalize_alpha2 code =
     (case code of
        PyStr s \<Rightarrow>
          (let code = strip s in
           case map_of COUNTRY_CODE_FIXES code of
             Some fixed \<Rightarrow> Some fixed
           | None \<Rightarrow> if length code = 2 \<and> isalpha code then Some (upper code) else None)
      | _ \<Rightarrow> None)"

definition remove_punctuation :: "string \<Rightarrow> string" where
  "remove_punctuation s = filter (\<lambda>c. c \<noteq> CHR ''.'' \<and> c \<noteq> CHR '','') s"

definition country_name_to_alpha2 :: "pc_lookup \<Rightarrow> pyval \<Rightarrow> py_error + string option" where
  "country_name_to_alpha2 names name =
     (case name of
        PyStr s \<Rightarrow>
          (let name = strip s in
           case map_of COUNTRY_CODE_FIXES name of
             Some fixed \<Rightarrow> Inr (Some fixed)
           | None \<Rightarrow>
               (case names name of
                  Inr a \<Rightarrow> Inr (Some a)
                | Inl _ \<Rightarrow>
                    (case names (remove_punctuation name) of
                       Inr a \<Rightarrow> Inr (Some a)
                     | Inl _ \<Rightarrow> Inr None)))
      | _ \<Rightarrow> Inr None)"

definition country_to_alpha2 :: "pc_lookup \<Rightarrow> pyval \<Rightarrow> py_error + string option" where
  "country_to_alpha2 names v =
     (case normalize_alpha2 v of
        Some code \<Rightarrow> if code \<noteq> [] then Inr (Some code) else country_name_to_alpha2 names v
      | None \<Rightarrow> country_name_to_alpha2 names v)"

definition alpha2_to_continent :: "pc_lookup \<Rightarrow> string option \<Rightarrow> py_error + string option" where
  "alpha2_to_continent conts alpha2 =
     (case alpha2 of
        None \<Rightarrow> Inr None
      | Some a \<Rightarrow>
          if a = [] then Inr None
          else (case conts a of Inr k \<Rightarrow> Inr (Some k) | Inl _ \<Rightarrow> Inr None))"

definition country_to_continent ::
  "pc_lookup \<Rightarrow> pc_lookup \<Rightarrow> pyval \<Rightarrow> py_error + string option" where
  "country_to_continent names conts country =
     (case country_to_alpha2 names country of
        Inl e \<Rightarrow> Inl e
      | Inr alpha2 \<Rightarrow> alpha2_to_continent conts alpha2)"

definition group_continent :: "string option \<Rightarrow> string" where
  "group_continent continent_code =
     (case continent_code of
        None \<Rightarrow> ''Unknown''
      | Some c \<Rightarrow>
          if c = [] then ''Unknown''
          else (case map_of CONTINENT_GROUPS c of Some g \<Rightarrow> g | None \<Rightarrow> ''Others''))"

section \<open>Input records\<close>

text \<open>
  An institution entry is a dictionary (with an optional name, and a \<open>Country\<close> key that
  is absent, \<open>None\<close>, or present with a value), a bare string, or something else. An
  author entry is a dictionary holding its list of institutions (an absent, null or empty
  \<open>Institutions\<close> field is the empty list), or something that is not a dictionary.
\<close>

datatype institution =
    InstDict (inst_name: "string option") (inst_country: "pyval option")
  | InstStr string
  | InstOther

datatype author = AuthorDict (author_institutions: "institution list") | AuthorOther

record paper =
  Title :: string
  Authors_and_Institutions :: "author list"

section \<open>Predominant continent (ContinentMapper.get_predominant_continent)\<close>

text \<open>
  \<open>continent_count\<close> is a Python dictionary, which keeps its keys in the order of their
  first insertion: an association list, incremented in place or extended at the end.
\<close>

type_synonym continent_count = "(string \<times> nat) list"

fun dict_incr :: "continent_count \<Rightarrow> string \<Rightarrow> continent_count" where
  "dict_incr [] k = [(k, 1)]"
| "dict_incr ((k', n) # d) k =
     (if k' = k then (k', n + 1) # d else (k', n) # dict_incr d k)"

text \<open>The values added to \<open>unique_countries\<close> for one author, in the order of the loop.\<close>

fun country_tokens :: "institution list \<Rightarrow> pyval list" where
  "country_tokens [] = []"
| "country_tokens (InstDict n (Some c) # insts) = c # country_tokens insts"
| "country_tokens (_ # insts) = country_tokens insts"

text \<open>
  The continent bucket one country token votes for, and whether the token counts as an
  unknown country.
\<close>

definition country_vote :: "pc_lookup \<Rightarrow> pyval \<Rightarrow> string \<times> bool" where
  "country_vote conts country =
     (case country of
        PyStr s \<Rightarrow>
          if s = [] \<or> length (strip s) \<noteq> 2 then (''Unknown'', True)
          else (case conts s of Inr k \<Rightarrow> (k, False) | Inl _ \<Rightarrow> (''Unknown'', True))
      | _ \<Rightarrow> (''Unknown'', True))"

fun count_countries ::
  "pc_lookup \<Rightarrow> pyval list \<Rightarrow> continent_count \<times> nat \<Rightarrow> continent_count \<times> nat" where
  "count_countries conts [] st = st"
| "count_countries conts (country # rest) (cc, unknown_country) =
     (let (continent, unknown) = country_vote conts country
      in count_countries conts rest
           (dict_incr cc continent, if unknown then unknown_country + 1 else unknown_country))"


fun count_authors ::
  "(pyval list \<Rightarrow> pyval list) \<Rightarrow> pc_lookup \<Rightarrow> author list \<Rightarrow>
   continent_count \<times> nat \<times> nat \<Rightarrow> continent_count \<times> nat \<times> nat" where
  "count_authors iter conts [] st = st"
| "count_authors iter conts (AuthorOther # rest) st = count_authors iter conts rest st"
| "count_authors iter conts (AuthorDict insts # rest) (cc, no_inst_data, unknown_country) =
     (if insts = [] then count_authors iter conts rest (cc, no_inst_data + 1, unknown_country)
      else
        (let (cc', unknown') =
               count_countries conts (iter (country_tokens insts)) (cc, unknown_country)
         in count_authors iter conts rest (cc', no_inst_data, unknown')))"

fun max_values :: "nat list \<Rightarrow> nat" where
  "max_values [] = 0"
| "max_values [n] = n"
| "max_values (n # ns) = max n (max_values ns)"

definition get_predominant_continent ::
  "(pyval list \<Rightarrow> pyval list) \<Rightarrow> pc_lookup \<Rightarrow> author list \<Rightarrow> string list \<times> nat \<times> nat" where
  "get_predominant_continent iter conts authors =
     (if authors = [] then ([], 0, 0)
      else
        (let (cc, no_inst_data, unknown_country) = count_authors iter conts authors ([], 0, 0)
         in if cc = [] then ([], no_inst_data, unknown_country)
            else
              (let max_count = max_values (map snd cc)
               in (map fst (filter (\<lambda>(cont, count). count = max_count) cc),
                   no_inst_data, unknown_country))))"

section \<open>Company classification (BigTechAnalyzer)\<close>

text \<open>
  The compiled pattern is \<open>(?<!\w)(c1|c2|...)(?!\w)\<close> with \<open>re.IGNORECASE\<close>, every
  \<open>ci\<close> an escaped catalog name. A catalog name holds no upper-case letter, so a text
  character matches a pattern character when its lower-case form is that code point.
\<close>

definition lc :: "char \<Rightarrow> nat" where
  "lc c = of_char (lower_char c)"

definition ic_eq :: "nat \<Rightarrow> char \<Rightarrow> bool" where
  "ic_eq p c = (lc c = p)"

fun literal_at :: "nat list \<Rightarrow> string \<Rightarrow> bool" where
  "literal_at [] s = True"
| "literal_at (p # ps) [] = False"
| "literal_at (p # ps) (c # cs) = (ic_eq p c \<and> literal_at ps cs)"

definition not_word_before :: "char option \<Rightarrow> bool" where
  "not_word_before prev = (case prev of None \<Rightarrow> True | Some c \<Rightarrow> \<not> is_word_char c)"

definition not_word_after :: "string \<Rightarrow> bool" where
  "not_word_after s = (case s of [] \<Rightarrow> True | c # _ \<Rightarrow> \<not> is_word_char c)"

definition company_at :: "nat list \<Rightarrow> string \<Rightarrow> bool" where
  "company_at company s = (literal_at company s \<and> not_word_after (drop (length company) s))"

definition pattern_at :: "char option \<Rightarrow> string \<Rightarrow> bool" where
  "pattern_at prev s = (not_word_before prev \<and> list_ex (\<lambda>c. company_at c s) BIG_TECH_COMPANIES)"

fun search_from :: "char option \<Rightarrow> string \<Rightarrow> bool" where
  "search_from prev [] = pattern_at prev []"
| "search_from prev (c # cs) = (pattern_at prev (c # cs) \<or> search_from (Some c) cs)"

definition company_pattern_search :: "string \<Rightarrow> bool" where
  "company_pattern_search s = search_from None s"

datatype classification = Has_big_company | No_big_company | All_none

fun inst_names :: "institution list \<Rightarrow> string option list" where
  "inst_names [] = []"
| "inst_names (InstDict name country # insts) =
     (case name of
        None \<Rightarrow> inst_names insts
      | Some n \<Rightarrow> if n = [] then inst_names insts else Some (strip (lower n)) # inst_names insts)"
| "inst_names (InstStr s # insts) = Some (strip (lower s)) # inst_names insts"
| "inst_names (InstOther # insts) = None # inst_names insts"

fun extract_authors :: "author list \<Rightarrow> py_error + string option list" where
  "extract_authors [] = Inr []"
| "extract_authors (AuthorOther # rest) = Inl AttributeError"
| "extract_authors (AuthorDict insts # rest) =
     (case extract_authors rest of
        Inl e \<Rightarrow> Inl e
      | Inr names \<Rightarrow> Inr ((if insts = [] then [None] else inst_names insts) @ names))"

definition extract_institutions :: "paper \<Rightarrow> py_error + string option list" where
  "extract_institutions p =
     (if Authors_and_Institutions p = [] then Inr [None]
      else extract_authors (Authors_and_Institutions p))"

text \<open>
  The loop of \<open>classify_paper\<close> with its two flags; \<open>break\<close> ends it at the first
  match.
\<close>

fun classify_scan :: "string option list \<Rightarrow> bool \<Rightarrow> bool \<times> bool" where
  "classify_scan [] all_are_none = (all_are_none, False)"
| "classify_scan (None # insts) all_are_none = classify_scan insts all_are_none"
| "classify_scan (Some inst # insts) all_are_none =
     (if company_pattern_search inst then (False, True) else classify_scan insts False)"

definition classify_paper :: "string option list \<Rightarrow> classification" where
  "classify_paper institutions =
     (if institutions = [] then All_none
      else
        (let (all_are_none, contains_big_company) = classify_scan institutions True
         in if all_are_none then All_none
            else if contains_big_company then Has_big_company else No_big_company))"

section \<open>Aggregation (BigTechAnalyzer)\<close>

text \<open>
  Percentages are Python floats; they are modelled by exact rationals. \<open>round2\<close> is
  \<open>round(x, 2)\<close>, which rounds halves to the even neighbour.
\<close>

record BigTechStats =
  total_papers :: nat
  has_big_tech :: nat
  no_big_tech :: nat
  all_none :: nat
  pct_has_big :: rat
  pct_no_big :: rat
  pct_all_none :: rat

record csv_row =
  Conference :: string
  Year :: string
  row_pct_has_big :: rat
  row_pct_no_big :: rat
  row_pct_all_none :: rat

definition round2 :: "rat \<Rightarrow> rat" where
  "round2 x =
     (let y = x * 100; f = \<lfloor>y\<rfloor>; d = y - of_int f
      in of_int (if d < 1 / 2 then f else if 1 / 2 < d then f + 1
                 else if even f then f else f + 1) / 100)"

fun classify_all :: "paper list \<Rightarrow> py_error + classification list" where
  "classify_all [] = Inr []"
| "classify_all (p # ps) =
     (case extract_institutions p of
        Inl e \<Rightarrow> Inl e
      | Inr institutions \<Rightarrow>
          (case classify_all ps of
             Inl e \<Rightarrow> Inl e
           | Inr cs \<Rightarrow> Inr (classify_paper institutions # cs)))"

definition percentage :: "nat \<Rightarrow> nat \<Rightarrow> rat" where
  "percentage n m = (if m > 0 then (of_nat n / of_nat m) * 100 else 0)"

definition analyze_year :: "paper list \<Rightarrow> py_error + BigTechStats" where
  "analyze_year papers =
     (case classify_all papers of
        Inl e \<Rightarrow> Inl e
      | Inr classifications \<Rightarrow>
          (let n_papers = length papers;
               has = count_list classifications Has_big_company;
               no = count_list classifications No_big_company;
               none = count_list classifications All_none
           in Inr \<lparr>total_papers = n_papers, has_big_tech = has, no_big_tech = no, all_none = none,
                   pct_has_big = percentage has n_papers,
                   pct_no_big = percentage no n_papers,
                   pct_all_none = percentage none n_papers\<rparr>))"

text \<open>
  \<open>papers_by_year\<close> is the JSON object of one conference: its year keys, which are
  distinct, in their order, each with its list of papers.
\<close>

type_synonym papers_by_year = "(string \<times> paper list) list"

fun analyze_conference :: "papers_by_year \<Rightarrow> py_error + (string \<times> BigTechStats) list" where
  "analyze_conference [] = Inr []"
| "analyze_conference ((year, papers) # rest) =
     (case analyze_year papers of
        Inl e \<Rightarrow> Inl e
      | Inr stats \<Rightarrow>
          (case analyze_conference rest of
             Inl e \<Rightarrow> Inl e
           | Inr stats_by_year \<Rightarrow> Inr ((year, stats) # stats_by_year)))"

definition stats_row :: "string \<Rightarrow> string \<times> BigTechStats \<Rightarrow> csv_row" where
  "stats_row conference ys =
     \<lparr>Conference = conference, Year = fst ys,
      row_pct_has_big = round2 (pct_has_big (snd ys)),
      row_pct_no_big = round2 (pct_no_big (snd ys)),
      row_pct_all_none = round2 (pct_all_none (snd ys))\<rparr>"

text \<open>
  \<open>analyze_all_conferences\<close> over the conferences found in the data directory, each
  with the outcome of loading its file. A conference whose file fails to load or whose
  analysis raises is logged and contributes no row.
\<close>

fun analyze_all_conferences :: "(string \<times> (py_error + papers_by_year)) list \<Rightarrow> csv_row list" where
  "analyze_all_conferences [] = []"
| "analyze_all_conferences ((conference, loaded) # rest) =
     (if lower conference = ''socc'' then analyze_all_conferences rest
      else
        (case loaded of
           Inl e \<Rightarrow> analyze_all_conferences rest
         | Inr papers_by_year \<Rightarrow>
             (case analyze_conference papers_by_year of
                Inl e \<Rightarrow> analyze_all_conferences rest
              | Inr stats_by_year \<Rightarrow>
                  map (stats_row conference) stats_by_year @ analyze_all_conferences rest)))"

section \<open>Auxiliary definitions for the statements\<close>

text \<open>
  Small excerpts of the two library tables, used where a statement is instantiated at a
  concrete input.
\<close>

definition sample_continents :: pc_lookup where
  "sample_continents s =
     (case map_of [(''US'', ''NA''), (''CA'', ''NA''), (''FR'', ''EU''), (''GB'', ''EU''),
                   (''CH'', ''EU''), (''CN'', ''AS''), (''BR'', ''SA'')] s of
        Some k \<Rightarrow> Inr k | None \<Rightarrow> Inl KeyError)"

definition sample_names :: pc_lookup where
  "sample_names s =
     (case map_of [(''United States'', ''US''), (''France'', ''FR''), (''China'', ''CN'')] s of
        Some a \<Rightarrow> Inr a | None \<Rightarrow> Inl KeyError)"

definition is_ascii_letter :: "char \<Rightarrow> bool" where
  "is_ascii_letter c = (let n = (of_char c :: nat) in in_range 65 90 n \<or> in_range 97 122 n)"

text \<open>
  The search of the pattern restated over a text whose characters were folded once, each
  into its lower-case code point and its word-character flag; used to evaluate the search
  on a concrete text.
\<close>

definition fold_char :: "char \<Rightarrow> nat \<times> bool" where
  "fold_char c = (lc c, is_word_char c)"

fun literal_cp :: "nat list \<Rightarrow> (nat \<times> bool) list \<Rightarrow> bool" where
  "literal_cp [] [] = True"
| "literal_cp [] ((x, w) # t) = (\<not> w)"
| "literal_cp (p # ps) [] = False"
| "literal_cp (p # ps) ((x, w) # t) = (p = x \<and> literal_cp ps t)"

fun search_cp :: "nat list list \<Rightarrow> bool \<Rightarrow> (nat \<times> bool) list \<Rightarrow> bool" where
  "search_cp cat prevw [] = (\<not> prevw \<and> list_ex (\<lambda>c. literal_cp c []) cat)"
| "search_cp cat prevw ((x, w) # t) =
     ((\<not> prevw \<and> list_ex (\<lambda>c. literal_cp c ((x, w) # t)) cat) \<or> search_cp cat w t)"





text \<open>
  The votes of an author list in the words of the specification: an author without
  institutions casts none, any other author one vote for each of its country tokens, in
  the order these are visited.
\<close>

definition author_votes :: "(pyval list \<Rightarrow> pyval list) \<Rightarrow> pc_lookup \<Rightarrow> author \<Rightarrow> string list" where
  "author_votes iter conts a =
     (case a of
        AuthorOther \<Rightarrow> []
      | AuthorDict insts \<Rightarrow>
          if insts = [] then []
          else map (\<lambda>c. fst (country_vote conts c)) (iter (country_tokens insts)))"

definition votes :: "(pyval list \<Rightarrow> pyval list) \<Rightarrow> pc_lookup \<Rightarrow> author list \<Rightarrow> string list" where
  "votes iter conts authors = concat (map (author_votes iter conts) authors)"

text \<open>The distinct elements of a list in the order of their first occurrence.\<close>

fun first_seen :: "'a list \<Rightarrow> 'a list" where
  "first_seen [] = []"
| "first_seen (x # xs) = x # filter (\<lambda>y. y \<noteq> x) (first_seen xs)"

definition tally :: "continent_count \<Rightarrow> string list \<Rightarrow> continent_count" where
  "tally d ks = fold (\<lambda>k d. dict_incr d k) ks d"

definition lookup :: "continent_count \<Rightarrow> string \<Rightarrow> nat" where
  "lookup d k = (case map_of d k of None \<Rightarrow> 0 | Some n \<Rightarrow> n)"

text \<open>The label of one paper, or the error its extraction raises.\<close>

definition paper_class :: "paper \<Rightarrow> py_error + classification" where
  "paper_class p =
     (case extract_institutions p of
        Inl e \<Rightarrow> Inl e
      | Inr institutions \<Rightarrow> Inr (classify_paper institutions))"

text \<open>
  The four papers of the end-to-end scenario of the specification: one at Google, one at
  ETH Zurich, one without institution data, and one whose authors are tied between North
  America and Asia.
\<close>

definition scenario_google :: paper where
  "scenario_google =
     \<lparr>Title = ''P1'',
      Authors_and_Institutions = [AuthorDict [InstDict (Some ''Google'') (Some (PyStr ''US''))]]\<rparr>"

definition scenario_eth :: paper where
  "scenario_eth =
     \<lparr>Title = ''P2'',
      Authors_and_Institutions =
        [AuthorDict [InstDict (Some ''ETH Zurich'') (Some (PyStr ''CH''))]]\<rparr>"

definition scenario_no_data :: paper where
  "scenario_no_data = \<lparr>Title = ''P3'', Authors_and_Institutions = [AuthorDict []]\<rparr>"

definition scenario_tied :: paper where
  "scenario_tied =
     \<lparr>Title = ''P4'',
      Authors_and_Institutions =
        [AuthorDict [InstDict (Some ''MIT'') (Some (PyStr ''US''))],
         AuthorDict [InstDict (Some ''Tsinghua University'') (Some (PyStr ''CN''))]]\<rparr>"


section \<open>Character classes of ASCII letters\<close>

lemmas char_class_defs = lower_char_def is_upper_char_def is_word_char_def
  is_alpha_char_def in_range_def Let_def

lemma ascii_letter_not_space: "is_ascii_letter c \<Longrightarrow> \<not> is_space c"
  by (auto simp: is_ascii_letter_def is_space_def in_range_def Let_def)

lemma ascii_letter_alpha: "is_ascii_letter c \<Longrightarrow> is_alpha_char c"
  by (auto simp: is_ascii_letter_def is_alpha_char_def in_range_def Let_def)

lemma of_char_upper_char:
  "is_ascii_letter c \<Longrightarrow> in_range 65 90 (of_char (upper_char c) :: nat)"
  by (auto simp: is_ascii_letter_def upper_char_def is_lower_cased_def in_range_def Let_def)

lemma upper_char_ascii: "is_ascii_letter c \<Longrightarrow> is_ascii_letter (upper_char c)"
  using of_char_upper_char [of c] by (simp add: is_ascii_letter_def Let_def)

lemma upper_char_idem: "is_ascii_letter c \<Longrightarrow> upper_char (upper_char c) = upper_char c"
  using of_char_upper_char [of c]
  by (simp add: upper_char_def [of "upper_char c"] is_lower_cased_def in_range_def Let_def)

section \<open>Grouping of continent codes\<close>

text \<open>
  C9. \<open>group_continent\<close> answers \<open>Unknown\<close> exactly for a missing or empty code. Every
  non-empty string other than the six raw continent codes is grouped under \<open>Others\<close>,
  and so is the string \<open>Unknown\<close> itself.
\<close>

theorem group_continent_unknown_only_empty:
  "(group_continent c = ''Unknown'' \<longleftrightarrow> c = None \<or> c = Some [])
   \<and> (s \<noteq> [] \<longrightarrow> s \<notin> {''NA'', ''EU'', ''AS'', ''SA'', ''OC'', ''AF''} \<longrightarrow>
        group_continent (Some s) = ''Others'')
   \<and> group_continent (Some ''Unknown'') = ''Others''"
  by (auto simp: group_continent_def CONTINENT_GROUPS_def split: option.splits)

theorem group_continent_unknown_only_empty_witness:
  "''Antarctica'' \<noteq> [] \<and> ''Antarctica'' \<notin> {''NA'', ''EU'', ''AS'', ''SA'', ''OC'', ''AF''}
   \<and> group_continent (Some ''Antarctica'') = ''Others''
   \<and> group_continent (Some []) = ''Unknown''"
  using group_continent_unknown_only_empty [of "Some []" "''Antarctica''"] by simp

section \<open>Country resolution\<close>

text \<open>
  C5. Resolution never raises. Whatever the two library functions return or raise, and
  for every input value (null, a number, any string), \<open>country_to_alpha2\<close> and
  \<open>country_to_continent\<close> return a result, a code or null. A string that is no alias, is
  not two letters and is rejected by the library with and without its punctuation
  resolves to null, and so does its continent; null and non-string inputs have no
  continent.
\<close>

theorem resolution_never_raises:
  "(\<exists>r. country_to_alpha2 names v = Inr r)
   \<and> (\<exists>k. country_to_continent names conts v = Inr k)
   \<and> (map_of COUNTRY_CODE_FIXES (strip s) = None \<longrightarrow>
        \<not> (length (strip s) = 2 \<and> isalpha (strip s)) \<longrightarrow>
        names (strip s) = Inl e1 \<longrightarrow> names (remove_punctuation (strip s)) = Inl e2 \<longrightarrow>
        country_to_alpha2 names (PyStr s) = Inr None
        \<and> country_to_continent names conts (PyStr s) = Inr None)
   \<and> country_to_continent names conts PyNone = Inr None
   \<and> country_to_continent names conts (PyInt n) = Inr None"
  by (auto simp: country_to_alpha2_def country_to_continent_def country_name_to_alpha2_def
        normalize_alpha2_def alpha2_to_continent_def Let_def
      split: option.splits sum.splits pyval.splits)

lemma strip_atlantis: "strip ''Atlantis'' = ''Atlantis''"
  by (simp add: strip_def is_space_def in_range_def)

theorem resolution_never_raises_witness:
  "map_of COUNTRY_CODE_FIXES (strip ''Atlantis'') = None
   \<and> \<not> (length (strip ''Atlantis'') = 2 \<and> isalpha (strip ''Atlantis''))
   \<and> sample_names (strip ''Atlantis'') = Inl KeyError
   \<and> sample_names (remove_punctuation (strip ''Atlantis'')) = Inl KeyError
   \<and> country_to_alpha2 sample_names (PyStr ''Atlantis'') = Inr None
   \<and> country_to_continent sample_names sample_continents (PyStr ''Atlantis'') = Inr None"
  using resolution_never_raises
          [of sample_names _ sample_continents "''Atlantis''" KeyError KeyError]
  by (simp add: strip_atlantis COUNTRY_CODE_FIXES_def sample_names_def remove_punctuation_def)

lemma strip_letters2: "is_ascii_letter a \<Longrightarrow> is_ascii_letter b \<Longrightarrow> strip [a, b] = [a, b]"
  by (simp add: strip_def ascii_letter_not_space)

lemma fixes_two_letters: "[a, b] \<noteq> ''UK'' \<Longrightarrow> map_of COUNTRY_CODE_FIXES [a, b] = None"
  by (simp add: COUNTRY_CODE_FIXES_def)

lemma normalize_two_letters:
  assumes "is_ascii_letter a" "is_ascii_letter b" "[a, b] \<noteq> ''UK''"
  shows "normalize_alpha2 (PyStr [a, b]) = Some (upper [a, b])"
  using assms
  by (simp add: normalize_alpha2_def strip_letters2 fixes_two_letters isalpha_def
        ascii_letter_alpha Let_def)

lemma upper_UK: "upper ''UK'' = ''UK''"
  by (simp add: upper_def upper_char_def is_lower_cased_def in_range_def)

text \<open>
  C6, as the code has it. The alias table is consulted first and holds the two-letter key
  \<open>UK\<close>. For every string of two ASCII letters whose upper-case form is not \<open>UK\<close>,
  \<open>country_to_alpha2\<close> returns the upper-cased string, and resolving that result again
  returns it unchanged.
\<close>

theorem resolve_two_letter_code:
  assumes "length s = 2" and "list_all is_ascii_letter s" and "upper s \<noteq> ''UK''"
  shows "country_to_alpha2 names (PyStr s) = Inr (Some (upper s))
       \<and> country_to_alpha2 names (PyStr (upper s)) = Inr (Some (upper s))"
proof -
  from assms(1) obtain a b where s: "s = [a, b]"
    by (cases s; cases "tl s") auto
  with assms(2) have ab: "is_ascii_letter a" "is_ascii_letter b" by simp_all
  from assms(3) s have ne: "[a, b] \<noteq> ''UK''" using upper_UK by auto
  have u: "upper [a, b] = [upper_char a, upper_char b]" by (simp add: upper_def)
  have n1: "normalize_alpha2 (PyStr [a, b]) = Some (upper [a, b])"
    using ab ne by (rule normalize_two_letters)
  have ne': "[upper_char a, upper_char b] \<noteq> ''UK''" using assms(3) s u by simp
  have n2: "normalize_alpha2 (PyStr [upper_char a, upper_char b])
              = Some (upper [upper_char a, upper_char b])"
    using ab ne' by (intro normalize_two_letters upper_char_ascii)
  have uu: "upper [upper_char a, upper_char b] = [upper_char a, upper_char b]"
    using ab by (simp add: upper_def upper_char_idem)
  show ?thesis
    using n1 n2 by (simp add: s u uu country_to_alpha2_def)
qed

theorem resolve_two_letter_code_witness:
  "length ''fr'' = 2 \<and> list_all is_ascii_letter ''fr'' \<and> upper ''fr'' \<noteq> ''UK''
   \<and> country_to_alpha2 sample_names (PyStr ''fr'') = Inr (Some ''FR'')
   \<and> country_to_alpha2 sample_names (PyStr ''FR'') = Inr (Some ''FR'')"
proof -
  have u: "upper ''fr'' = ''FR''"
    by code_simp
  have h: "length ''fr'' = 2" "list_all is_ascii_letter ''fr''" "upper ''fr'' \<noteq> ''UK''"
    by (simp_all add: u is_ascii_letter_def in_range_def)
  show ?thesis
    using h resolve_two_letter_code [OF h, of sample_names] by (simp add: u)
qed

text \<open>
  The claim as written fails at \<open>UK\<close>: two ASCII letters, already upper-case, resolved to
  \<open>GB\<close>.
\<close>

theorem resolve_UK_counterexample:
  "length ''UK'' = 2 \<and> list_all is_ascii_letter ''UK'' \<and> upper ''UK'' = ''UK''
   \<and> country_to_alpha2 sample_names (PyStr ''UK'') = Inr (Some ''GB'')
   \<and> country_to_alpha2 sample_names (PyStr ''UK'') \<noteq> Inr (Some (upper ''UK''))"
  by (simp add: upper_UK is_ascii_letter_def in_range_def country_to_alpha2_def
        normalize_alpha2_def strip_def is_space_def COUNTRY_CODE_FIXES_def)

section \<open>Labels of a paper\<close>

lemma classify_scan_fst:
  "fst (classify_scan insts a) = (a \<and> (\<forall>i\<in>set insts. i = None))"
  by (induction insts a rule: classify_scan.induct) auto

lemma classify_scan_snd:
  "snd (classify_scan insts a) = (\<exists>s. Some s \<in> set insts \<and> company_pattern_search s)"
  by (induction insts a rule: classify_scan.induct) auto

lemma classify_paper_cases:
  "classify_paper insts =
     (if \<forall>i\<in>set insts. i = None then All_none
      else if \<exists>s. Some s \<in> set insts \<and> company_pattern_search s then Has_big_company
      else No_big_company)"
proof -
  obtain x y where xy: "classify_scan insts True = (x, y)" by (cases "classify_scan insts True")
  have x: "x = (\<forall>i\<in>set insts. i = None)" using classify_scan_fst [of insts True] xy by simp
  have y: "y = (\<exists>s. Some s \<in> set insts \<and> company_pattern_search s)"
    using classify_scan_snd [of insts True] xy by simp
  show ?thesis
    by (cases "insts = []") (simp_all add: classify_paper_def xy x y)
qed

text \<open>
  C4, as the code has it. \<open>classify_paper\<close> skips an entry only when it is \<open>None\<close>,
  so it answers \<open>all_none\<close> exactly when every entry of the list is \<open>None\<close> (the empty
  list included). An empty string is a known name.
\<close>

theorem classify_all_none_iff:
  "classify_paper insts = All_none \<longleftrightarrow> (\<forall>i\<in>set insts. i = None)"
  by (simp add: classify_paper_cases)

theorem classify_all_none_iff_witness:
  "list_all (\<lambda>i. i = None) [None, None :: string option]
   \<and> classify_paper [None, None] = All_none
   \<and> classify_paper [] = All_none"
  using classify_all_none_iff [of "[None, None]"] classify_all_none_iff [of "[]"] by simp

lemma search_empty: "company_pattern_search [] = False"
  by (simp add: company_pattern_search_def pattern_at_def company_at_def BIG_TECH_COMPANIES_def cps_def)

text \<open>
  The claim as written fails on a list that holds an empty string: the paper is labelled
  \<open>no_big_company\<close>.
\<close>

theorem classify_empty_string_counterexample:
  "classify_paper [Some ''''] = No_big_company \<and> classify_paper [None, Some ''''] \<noteq> All_none"
  by (simp add: classify_paper_cases search_empty)

section \<open>Whole-word matching\<close>















lemma company_at_cp: "company_at nm s = literal_cp nm (map fold_char s)"
proof (induction nm arbitrary: s)
  case Nil
  then show ?case by (cases s) (simp_all add: company_at_def not_word_after_def fold_char_def)
next
  case (Cons p ps)
  then show ?case by (cases s) (auto simp add: company_at_def ic_eq_def fold_char_def)
qed

lemma search_from_cp:
  "search_from prev s =
     search_cp BIG_TECH_COMPANIES (case prev of None \<Rightarrow> False | Some c \<Rightarrow> is_word_char c)
       (map fold_char s)"
proof (induction s arbitrary: prev)
  case Nil
  then show ?case
    by (simp add: pattern_at_def not_word_before_def company_at_cp split: option.splits)
next
  case (Cons c cs)
  obtain x w where fc: "fold_char c = (x, w)" by (cases "fold_char c")
  then have w: "w = is_word_char c" by (simp add: fold_char_def)
  show ?case
    by (cases prev) (simp_all add: pattern_at_def not_word_before_def company_at_cp fc w Cons.IH)
qed

lemmas search_eval = company_pattern_search_def search_from_cp BIG_TECH_COMPANIES_def cps_def
  fold_char_def lc_def char_class_defs











section \<open>Predominant continent\<close>



lemma strip_two: "\<not> is_space a \<Longrightarrow> \<not> is_space b \<Longrightarrow> strip [a, b] = [a, b]"
  by (simp add: strip_def)



section \<open>Votes and their tally\<close>

lemma tally_Nil: "tally d [] = d"
  by (simp add: tally_def)

lemma tally_Cons: "tally d (k # ks) = tally (dict_incr d k) ks"
  by (simp add: tally_def)

lemma tally_append: "tally d (xs @ ys) = tally (tally d xs) ys"
  by (simp add: tally_def)

lemma count_countries_tally:
  "count_countries conts cs (cc, u) =
     (tally cc (map (\<lambda>c. fst (country_vote conts c)) cs),
      u + length (filter (\<lambda>c. snd (country_vote conts c)) cs))"
  by (induction cs arbitrary: cc u) (simp_all add: tally_Nil tally_Cons split: prod.splits)

lemma count_authors_tally:
  "fst (count_authors iter conts authors (cc, n, u)) = tally cc (votes iter conts authors)"
proof (induction authors arbitrary: cc n u)
  case Nil
  then show ?case by (simp add: votes_def tally_Nil)
next
  case (Cons a authors)
  show ?case
  proof (cases a)
    case AuthorOther
    with Cons show ?thesis by (simp add: votes_def author_votes_def tally_Nil)
  next
    case (AuthorDict insts)
    show ?thesis
    proof (cases "insts = []")
      case True
      with AuthorDict Cons show ?thesis by (simp add: votes_def author_votes_def tally_Nil)
    next
      case False
      with AuthorDict Cons show ?thesis
        by (simp add: votes_def author_votes_def count_countries_tally tally_append)
    qed
  qed
qed

lemma keys_dict_incr:
  "map fst (dict_incr d k) = (if k \<in> fst ` set d then map fst d else map fst d @ [k])"
  by (induction d k rule: dict_incr.induct) auto

lemma set_first_seen: "set (first_seen xs) = set xs"
  by (induction xs) auto

lemma distinct_first_seen: "distinct (first_seen xs)"
  by (induction xs) (auto simp: set_first_seen)

lemma filter_insert_split:
  "filter (\<lambda>k. k \<notin> insert x A) xs = filter (\<lambda>k. k \<notin> A) (filter (\<lambda>y. y \<noteq> x) xs)"
  by (induction xs) auto

lemma key_set_dict_incr: "fst ` set (dict_incr d k) = insert k (fst ` set d)"
  by (induction d k rule: dict_incr.induct) auto

lemma keys_tally:
  "map fst (tally d ks) = map fst d @ filter (\<lambda>k. k \<notin> fst ` set d) (first_seen ks)"
proof (induction ks arbitrary: d)
  case Nil
  then show ?case by (simp add: tally_Nil)
next
  case (Cons x xs)
  have step: "map fst (tally d (x # xs))
      = map fst (dict_incr d x) @ filter (\<lambda>k. k \<notin> insert x (fst ` set d)) (first_seen xs)"
    by (simp only: tally_Cons Cons.IH key_set_dict_incr)
  show ?case
  proof (cases "x \<in> fst ` set d")
    case True
    then have i: "insert x (fst ` set d) = fst ` set d" by (rule insert_absorb)
    have f: "filter (\<lambda>k. k \<notin> fst ` set d) (filter (\<lambda>y. y \<noteq> x) (first_seen xs))
           = filter (\<lambda>k. k \<notin> fst ` set d) (first_seen xs)"
      unfolding filter_filter using True by (intro filter_cong) auto
    have "map fst (dict_incr d x) = map fst d"
      using True by (simp only: keys_dict_incr if_True)
    with step i f True show ?thesis by (simp only: first_seen.simps filter.simps if_False not_True_eq_False not_not)
  next
    case False
    have "map fst (dict_incr d x) = map fst d @ [x]"
      using False by (simp only: keys_dict_incr if_False)
    with step False show ?thesis
      by (simp add: filter_insert_split)
  qed
qed

lemma lookup_dict_incr:
  "lookup (dict_incr d k') k = lookup d k + (if k = k' then 1 else 0)"
  by (induction d k' rule: dict_incr.induct) (auto simp: lookup_def)

lemma lookup_tally: "lookup (tally d ks) k = lookup d k + count_list ks k"
  by (induction ks arbitrary: d) (auto simp: tally_Nil tally_Cons lookup_dict_incr)

lemma distinct_keys_rebuild:
  "distinct (map fst d) \<Longrightarrow> d = map (\<lambda>k. (k, lookup d k)) (map fst d)"
proof (induction d)
  case Nil
  then show ?case by simp
next
  case (Cons p d)
  obtain k n where p: "p = (k, n)" by (cases p)
  from Cons.prems p have k: "k \<notin> fst ` set d" and dd: "distinct (map fst d)" by auto
  have "map (\<lambda>k'. (k', lookup ((k, n) # d) k')) (map fst d) = map (\<lambda>k'. (k', lookup d k')) (map fst d)"
    using k by (intro map_cong) (auto simp: lookup_def)
  with Cons.IH [OF dd] show ?case by (simp add: p lookup_def)
qed

lemma tally_first_seen:
  "tally [] ks = map (\<lambda>k. (k, count_list ks k)) (first_seen ks)"
proof -
  have k: "map fst (tally [] ks) = first_seen ks"
    using keys_tally [of "[]" ks] by simp
  then have "distinct (map fst (tally [] ks))" by (simp add: distinct_first_seen)
  from distinct_keys_rebuild [OF this]
  have r: "tally [] ks = map (\<lambda>k. (k, lookup (tally [] ks) k)) (first_seen ks)"
    by (simp only: k)
  have "lookup (tally [] ks) k = count_list ks k" for k
    by (simp add: lookup_tally) (simp add: lookup_def)
  with r show ?thesis by simp
qed

lemma max_values_ge: "n \<in> set ns \<Longrightarrow> n \<le> max_values ns"
  by (induction ns rule: max_values.induct) auto

lemma max_values_mem: "ns \<noteq> [] \<Longrightarrow> max_values ns \<in> set ns"
  by (induction ns rule: max_values.induct) (auto simp: max_def)

lemma predominant_filter:
  "fst (get_predominant_continent iter conts authors) =
     (let vs = votes iter conts authors
      in filter (\<lambda>c. count_list vs c = max_values (map (count_list vs) (first_seen vs)))
           (first_seen vs))"
proof (cases "authors = []")
  case True
  then show ?thesis by (simp add: get_predominant_continent_def votes_def)
next
  case False
  obtain cc n u where c: "count_authors iter conts authors ([], 0, 0) = (cc, n, u)"
    by (cases "count_authors iter conts authors ([], 0, 0)")
  have cc: "cc = map (\<lambda>k. (k, count_list (votes iter conts authors) k))
                   (first_seen (votes iter conts authors))"
    using count_authors_tally [of iter conts authors "[]" 0 0] c by (simp add: tally_first_seen)
  show ?thesis
  proof (cases "cc = []")
    case True
    with cc have "first_seen (votes iter conts authors) = []" by simp
    with True False c show ?thesis by (simp add: get_predominant_continent_def)
  next
    case nonempty: False
    have "map fst (filter (\<lambda>(cont, count). count = m) (map (\<lambda>k. (k, f k)) ks))
            = filter (\<lambda>k. f k = m) ks" for m :: nat and f and ks :: "string list"
      by (induction ks) auto
    with nonempty False c cc show ?thesis
      by (simp add: get_predominant_continent_def Let_def o_def)
  qed
qed

text \<open>
  C3. With \<open>vs\<close> the votes of the author list in the order they are cast, the continents
  returned by \<open>get_predominant_continent\<close> are exactly the buckets whose count no other
  bucket exceeds, every one of them and each once, listed in the order in which the
  buckets received their first vote.
\<close>

theorem predominant_all_maxima_first_seen:
  "(let vs = votes iter conts authors;
        predominant = fst (get_predominant_continent iter conts authors)
    in predominant = filter (\<lambda>c. \<forall>c'\<in>set vs. count_list vs c' \<le> count_list vs c) (first_seen vs)
       \<and> set predominant = {c \<in> set vs. \<forall>c'\<in>set vs. count_list vs c' \<le> count_list vs c}
       \<and> distinct predominant)"
proof -
  define vs where "vs = votes iter conts authors"
  define M where "M = max_values (map (count_list vs) (first_seen vs))"
  have eq: "(count_list vs c = M) = (\<forall>c'\<in>set vs. count_list vs c' \<le> count_list vs c)"
    if "c \<in> set vs" for c
  proof
    assume m: "count_list vs c = M"
    show "\<forall>c'\<in>set vs. count_list vs c' \<le> count_list vs c"
    proof
      fix c' assume "c' \<in> set vs"
      then have "count_list vs c' \<in> set (map (count_list vs) (first_seen vs))"
        by (simp add: set_first_seen)
      then show "count_list vs c' \<le> count_list vs c"
        unfolding m M_def by (rule max_values_ge)
    qed
  next
    assume a: "\<forall>c'\<in>set vs. count_list vs c' \<le> count_list vs c"
    from that have "map (count_list vs) (first_seen vs) \<noteq> []"
      using set_first_seen [of vs] by auto
    then have "M \<in> set (map (count_list vs) (first_seen vs))"
      unfolding M_def by (rule max_values_mem)
    then obtain c0 where "c0 \<in> set vs" "M = count_list vs c0"
      by (auto simp: set_first_seen)
    with a have "M \<le> count_list vs c" by simp
    moreover have "count_list vs c \<le> M"
      unfolding M_def using that by (intro max_values_ge) (simp add: set_first_seen)
    ultimately show "count_list vs c = M" by simp
  qed
  have f: "filter (\<lambda>c. count_list vs c = M) (first_seen vs)
         = filter (\<lambda>c. \<forall>c'\<in>set vs. count_list vs c' \<le> count_list vs c) (first_seen vs)"
    by (intro filter_cong refl eq) (simp add: set_first_seen)
  have p: "fst (get_predominant_continent iter conts authors)
         = filter (\<lambda>c. \<forall>c'\<in>set vs. count_list vs c' \<le> count_list vs c) (first_seen vs)"
    using predominant_filter [of iter conts authors] f by (simp add: vs_def M_def Let_def)
  show ?thesis
    unfolding Let_def vs_def [symmetric] p
    by (auto simp: set_first_seen distinct_first_seen)
qed

lemma strip_code: "\<not> is_space a \<Longrightarrow> \<not> is_space b \<Longrightarrow> strip [a, b] = [a, b]"
  by (simp add: strip_def)

lemmas vote_eval = country_vote_def strip_def is_space_def in_range_def sample_continents_def

theorem predominant_all_maxima_first_seen_witness:
  "votes remdups sample_continents
     [AuthorDict [InstDict (Some ''MIT'') (Some (PyStr ''US''))],
      AuthorDict [InstDict (Some ''Tsinghua'') (Some (PyStr ''CN''))],
      AuthorDict [InstDict (Some ''KAIST'') (Some (PyStr ''CN''))],
      AuthorDict [InstDict (Some ''CMU'') (Some (PyStr ''US''))],
      AuthorDict [InstDict (Some ''INRIA'') (Some (PyStr ''FR''))]]
     = [''NA'', ''AS'', ''AS'', ''NA'', ''EU'']
   \<and> fst (get_predominant_continent remdups sample_continents
     [AuthorDict [InstDict (Some ''MIT'') (Some (PyStr ''US''))],
      AuthorDict [InstDict (Some ''Tsinghua'') (Some (PyStr ''CN''))],
      AuthorDict [InstDict (Some ''KAIST'') (Some (PyStr ''CN''))],
      AuthorDict [InstDict (Some ''CMU'') (Some (PyStr ''US''))],
      AuthorDict [InstDict (Some ''INRIA'') (Some (PyStr ''FR''))]])
     = [''NA'', ''AS'']
   \<and> [''NA'', ''AS''] =
       filter (\<lambda>c. \<forall>c'\<in>set [''NA'', ''AS'', ''AS'', ''NA'', ''EU''].
                 count_list [''NA'', ''AS'', ''AS'', ''NA'', ''EU''] c'
                   \<le> count_list [''NA'', ''AS'', ''AS'', ''NA'', ''EU''] c)
         (first_seen [''NA'', ''AS'', ''AS'', ''NA'', ''EU''])"
proof -
  let ?as = "[AuthorDict [InstDict (Some ''MIT'') (Some (PyStr ''US''))],
      AuthorDict [InstDict (Some ''Tsinghua'') (Some (PyStr ''CN''))],
      AuthorDict [InstDict (Some ''KAIST'') (Some (PyStr ''CN''))],
      AuthorDict [InstDict (Some ''CMU'') (Some (PyStr ''US''))],
      AuthorDict [InstDict (Some ''INRIA'') (Some (PyStr ''FR''))]]"
  have v: "votes remdups sample_continents ?as = [''NA'', ''AS'', ''AS'', ''NA'', ''EU'']"
    by (simp add: votes_def author_votes_def vote_eval)
  have g: "fst (get_predominant_continent remdups sample_continents ?as) = [''NA'', ''AS'']"
    by (simp add: get_predominant_continent_def vote_eval)
  from predominant_all_maxima_first_seen [of remdups sample_continents ?as]
  have "fst (get_predominant_continent remdups sample_continents ?as) =
       filter (\<lambda>c. \<forall>c'\<in>set (votes remdups sample_continents ?as).
                 count_list (votes remdups sample_continents ?as) c'
                   \<le> count_list (votes remdups sample_continents ?as) c)
         (first_seen (votes remdups sample_continents ?as))"
    by (simp only: Let_def)
  then show ?thesis unfolding v g using v g by simp
qed








section \<open>The end-to-end scenario\<close>

lemma classify_all_Cons:
  "classify_all (p # ps) =
     (case paper_class p of
        Inl e \<Rightarrow> Inl e
      | Inr k \<Rightarrow> (case classify_all ps of Inl e \<Rightarrow> Inl e | Inr cs \<Rightarrow> Inr (k # cs)))"
  by (simp add: paper_class_def split: sum.splits)

lemma percentage_quarters:
  "percentage (Suc 0) (Suc (Suc (Suc (Suc 0)))) = 25"
  "percentage (Suc (Suc 0)) (Suc (Suc (Suc (Suc 0)))) = 50"
  by (simp_all add: percentage_def)

lemma round2_values: "round2 0 = 0" "round2 25 = 25" "round2 50 = 50"
  by (simp_all add: round2_def Let_def)

lemma analyze_year_four:
  assumes "paper_class p1 = Inr Has_big_company" "paper_class p2 = Inr No_big_company"
    "paper_class p3 = Inr All_none" "paper_class p4 = Inr k"
  shows "analyze_year [p1, p2, p3, p4] =
     Inr \<lparr>total_papers = 4,
          has_big_tech = (if k = Has_big_company then 2 else 1),
          no_big_tech = (if k = No_big_company then 2 else 1),
          all_none = (if k = All_none then 2 else 1),
          pct_has_big = (if k = Has_big_company then 50 else 25),
          pct_no_big = (if k = No_big_company then 50 else 25),
          pct_all_none = (if k = All_none then 50 else 25)\<rparr>"
proof -
  have c: "classify_all [p1, p2, p3, p4] = Inr [Has_big_company, No_big_company, All_none, k]"
    using assms by (simp only: classify_all_Cons classify_all.simps sum.case)
  show ?thesis
    by (cases k) (simp_all add: analyze_year_def c percentage_quarters del: classify_all.simps)
qed

lemma row_of_four:
  assumes "lower conf \<noteq> ''socc''"
    and "paper_class p1 = Inr Has_big_company" "paper_class p2 = Inr No_big_company"
    "paper_class p3 = Inr All_none" "paper_class p4 = Inr k"
  shows "analyze_all_conferences [(conf, Inr [(''2020'', [p1, p2, p3, p4])])] =
     [\<lparr>Conference = conf, Year = ''2020'',
       row_pct_has_big = (if k = Has_big_company then 50 else 25),
       row_pct_no_big = (if k = No_big_company then 50 else 25),
       row_pct_all_none = (if k = All_none then 50 else 25)\<rparr>]"
  using assms(1) analyze_year_four [OF assms(2-5)]
  by (simp add: stats_row_def round2_values)

text \<open>
  C1, as the code has it. Every paper carries exactly one label, so the three percentages
  of a row add up to 100. For a conference with four papers in 2020, one labelled
  \<open>has_big_company\<close>, one \<open>no_big_company\<close>, one \<open>all_none\<close> and a fourth with label
  \<open>k\<close>, the row shows 50.00 in the column of \<open>k\<close> and 25.00 in the two others, never
  25.00 in all three.
\<close>

theorem big_tech_row_four_papers:
  assumes "lower conf \<noteq> ''socc''"
    and "paper_class p1 = Inr Has_big_company" "paper_class p2 = Inr No_big_company"
    "paper_class p3 = Inr All_none" "paper_class p4 = Inr k"
  shows "analyze_all_conferences [(conf, Inr [(''2020'', [p1, p2, p3, p4])])] =
     [\<lparr>Conference = conf, Year = ''2020'',
       row_pct_has_big = (if k = Has_big_company then 50 else 25),
       row_pct_no_big = (if k = No_big_company then 50 else 25),
       row_pct_all_none = (if k = All_none then 50 else 25)\<rparr>]"
  using assms by (rule row_of_four)

lemma scenario_names:
  "strip (lower ''Google'') = ''google''"
  "strip (lower ''ETH Zurich'') = ''eth zurich''"
  "strip (lower ''MIT'') = ''mit''"
  "strip (lower ''Tsinghua University'') = ''tsinghua university''"
  by code_simp+

lemma scenario_searches:
  "company_pattern_search ''google''"
  "\<not> company_pattern_search ''eth zurich''"
  "\<not> company_pattern_search ''mit''"
  "\<not> company_pattern_search ''tsinghua university''"
  by (simp_all add: search_eval)

lemma scenario_classes:
  "paper_class scenario_google = Inr Has_big_company"
  "paper_class scenario_eth = Inr No_big_company"
  "paper_class scenario_no_data = Inr All_none"
  "paper_class scenario_tied = Inr No_big_company"
  by (simp_all add: paper_class_def extract_institutions_def scenario_google_def scenario_eth_def
        scenario_no_data_def scenario_tied_def scenario_names classify_paper_def scenario_searches)

lemma lower_nsdi: "lower ''nsdi'' \<noteq> ''socc''"
  by (simp add: lower_def char_class_defs)

lemma scenario_tied_continents:
  "fst (get_predominant_continent remdups sample_continents
          (Authors_and_Institutions scenario_tied)) = [''NA'', ''AS'']"
  by (simp add: scenario_tied_def get_predominant_continent_def vote_eval)

theorem big_tech_row_four_papers_witness:
  "lower ''nsdi'' \<noteq> ''socc''
   \<and> paper_class scenario_google = Inr Has_big_company
   \<and> paper_class scenario_eth = Inr No_big_company
   \<and> paper_class scenario_no_data = Inr All_none
   \<and> paper_class scenario_tied = Inr No_big_company
   \<and> analyze_all_conferences
        [(''nsdi'', Inr [(''2020'', [scenario_google, scenario_eth, scenario_no_data, scenario_tied])])]
       = [\<lparr>Conference = ''nsdi'', Year = ''2020'',
           row_pct_has_big = 25, row_pct_no_big = 50, row_pct_all_none = 25\<rparr>]"
  using big_tech_row_four_papers [OF lower_nsdi scenario_classes] lower_nsdi scenario_classes
  by simp

text \<open>
  The scenario of the claim, with a fourth paper by one author in the US and one in China
  (tied between NA and AS): its institutions are academic, and the row is 25, 50, 25.
\<close>

theorem big_tech_row_scenario_counterexample:
  "paper_class scenario_google = Inr Has_big_company
   \<and> paper_class scenario_eth = Inr No_big_company
   \<and> paper_class scenario_no_data = Inr All_none
   \<and> fst (get_predominant_continent remdups sample_continents
            (Authors_and_Institutions scenario_tied)) = [''NA'', ''AS'']
   \<and> analyze_all_conferences
        [(''nsdi'', Inr [(''2020'', [scenario_google, scenario_eth, scenario_no_data, scenario_tied])])]
       = [\<lparr>Conference = ''nsdi'', Year = ''2020'',
           row_pct_has_big = 25, row_pct_no_big = 50, row_pct_all_none = 25\<rparr>]
   \<and> analyze_all_conferences
        [(''nsdi'', Inr [(''2020'', [scenario_google, scenario_eth, scenario_no_data, scenario_tied])])]
       \<noteq> [\<lparr>Conference = ''nsdi'', Year = ''2020'',
           row_pct_has_big = 25, row_pct_no_big = 25, row_pct_all_none = 25\<rparr>]"
  using row_of_four [OF lower_nsdi scenario_classes] scenario_classes scenario_tied_continents
  by simp

section \<open>Rows of the classification table\<close>









end
